theory Spec2Isabelle
  imports Complex_Main
begin

section \<open>Python values held in table cells\<close>

text \<open>
  The cells of a data category are Python objects.  The embedding covers the objects the
  typing layer reads and writes: \<open>None\<close>, \<open>str\<close>, \<open>int\<close> and \<open>float\<close>.

  A \<open>float\<close> is an IEEE double: not-a-number, an infinity with its sign (\<open>True\<close> for
  \<open>+inf\<close>), or a finite number.  Finite doubles are embedded into the reals and finite
  arithmetic is exact: rounding, overflow to infinity and the sign of zero are not
  represented.  Every statement below that quantifies over floats therefore covers all
  representable doubles; none of them depends on how finite arithmetic rounds.
\<close>

datatype pyfloat = FNan | FInf bool | FFin real

datatype pyval = PNone | PStr string | PInt int | PFloat pyfloat

text \<open>The exceptions of the model.  All of them are subclasses of \<open>Exception\<close>.\<close>

datatype pyerror =
  AttributeError | TypeError | ValueError | OverflowError | IndexError | UnboundLocalError

subsection \<open>Float comparison and arithmetic\<close>

text \<open>\<open>a == b\<close>, \<open>a < b\<close> and \<open>a <= b\<close> on floats: every comparison with NaN is false.\<close>

fun float_eq :: "pyfloat \<Rightarrow> pyfloat \<Rightarrow> bool" where
  "float_eq (FFin x) (FFin y) = (x = y)"
| "float_eq (FInf s) (FInf t) = (s = t)"
| "float_eq _ _ = False"

fun float_lt :: "pyfloat \<Rightarrow> pyfloat \<Rightarrow> bool" where
  "float_lt FNan _ = False"
| "float_lt _ FNan = False"
| "float_lt (FFin x) (FFin y) = (x < y)"
| "float_lt (FFin x) (FInf t) = t"
| "float_lt (FInf s) (FFin y) = (\<not> s)"
| "float_lt (FInf s) (FInf t) = (\<not> s \<and> t)"

fun float_le :: "pyfloat \<Rightarrow> pyfloat \<Rightarrow> bool" where
  "float_le FNan _ = False"
| "float_le _ FNan = False"
| "float_le a b = (\<not> float_lt b a)"

text \<open>\<open>a - b\<close>, \<open>a * b\<close> and \<open>abs(a)\<close> on floats.\<close>

fun float_sub :: "pyfloat \<Rightarrow> pyfloat \<Rightarrow> pyfloat" where
  "float_sub FNan _ = FNan"
| "float_sub _ FNan = FNan"
| "float_sub (FFin x) (FFin y) = FFin (x - y)"
| "float_sub (FFin x) (FInf t) = FInf (\<not> t)"
| "float_sub (FInf s) (FFin y) = FInf s"
| "float_sub (FInf s) (FInf t) = (if s = t then FNan else FInf s)"

fun float_mul :: "pyfloat \<Rightarrow> pyfloat \<Rightarrow> pyfloat" where
  "float_mul FNan _ = FNan"
| "float_mul _ FNan = FNan"
| "float_mul (FFin x) (FFin y) = FFin (x * y)"
| "float_mul (FFin x) (FInf t) = (if x = 0 then FNan else FInf ((0 < x) = t))"
| "float_mul (FInf s) (FFin y) = (if y = 0 then FNan else FInf ((0 < y) = s))"
| "float_mul (FInf s) (FInf t) = FInf (s = t)"

fun float_abs :: "pyfloat \<Rightarrow> pyfloat" where
  "float_abs FNan = FNan"
| "float_abs (FInf s) = FInf True"
| "float_abs (FFin x) = FFin \<bar>x\<bar>"

text \<open>
  The builtin \<open>max(a, b)\<close> of two arguments keeps \<open>a\<close> unless \<open>b > a\<close>.
\<close>

definition py_max :: "pyfloat \<Rightarrow> pyfloat \<Rightarrow> pyfloat" where
  "py_max a b = (if float_lt a b then b else a)"

subsection \<open>Equality and membership of cell values\<close>

text \<open>
  \<open>a == b\<close> on cell values.  An \<open>int\<close> and a \<open>float\<close> are compared by value; values of
  otherwise different types are unequal.
\<close>

fun py_eq :: "pyval \<Rightarrow> pyval \<Rightarrow> bool" where
  "py_eq PNone PNone = True"
| "py_eq (PStr s) (PStr t) = (s = t)"
| "py_eq (PInt i) (PInt j) = (i = j)"
| "py_eq (PFloat a) (PFloat b) = float_eq a b"
| "py_eq (PInt i) (PFloat b) = float_eq (FFin (of_int i)) b"
| "py_eq (PFloat a) (PInt j) = float_eq a (FFin (of_int j))"
| "py_eq _ _ = False"

text \<open>\<open>v in [x1, ..., xn]\<close>: some element is \<open>==\<close> to \<open>v\<close>.\<close>

definition py_in :: "pyval \<Rightarrow> pyval list \<Rightarrow> bool" where
  "py_in v xs = list_ex (py_eq v) xs"

text \<open>\<open>isinstance(v, float)\<close>.\<close>

fun is_float :: "pyval \<Rightarrow> bool" where
  "is_float (PFloat _) = True"
| "is_float _ = False"

section \<open>The closeness predicate\<close>

text \<open>
  \<open>__isClose(aV, bV, relTol, absTol)\<close>, with the branches in the order of the source.
  The tolerances are floats, as the docstring of \<open>cmpAttributeValues\<close> says.
\<close>

definition isClose :: "pyval \<Rightarrow> pyval \<Rightarrow> pyfloat \<Rightarrow> pyfloat \<Rightarrow> pyerror + bool" where
  "isClose aV bV relTol absTol =
     (if aV = PNone \<and> bV = PNone then Inr True
      else if aV \<noteq> PNone \<and> bV \<noteq> PNone \<and> py_eq aV bV then Inr True
      else (case (aV, bV) of
              (PFloat a, PFloat b) \<Rightarrow>
                Inr (float_le (float_abs (float_sub a b))
                       (py_max (float_mul relTol (py_max (float_abs a) (float_abs b))) absTol))
            | _ \<Rightarrow> Inl ValueError))"

section \<open>Conversions\<close>

text \<open>
  \<open>int(s)\<close> and \<open>float(s)\<close> on a \<open>str\<close> and \<open>str(x)\<close> on a \<open>float\<close> are CPython's number
  parser and float formatter.  They are parameters of the model: \<open>None\<close> from a parser is
  its \<open>ValueError\<close>.  All results hold for every choice of them, except where a hypothesis
  about the formatter is stated.
\<close>

record builtins =
  str_to_int :: "string \<Rightarrow> int option"
  str_to_float :: "string \<Rightarrow> pyfloat option"
  float_to_str :: "pyfloat \<Rightarrow> string"

text \<open>
  \<open>str(n)\<close> on an \<open>int\<close>: decimal digits, with a minus sign when negative.  The limit
  that CPython puts on the number of digits of a converted \<open>int\<close> is not represented.
\<close>

fun nat_to_str :: "nat \<Rightarrow> string" where
  "nat_to_str n =
     (if n < 10 then [''0123456789'' ! n]
      else nat_to_str (n div 10) @ [''0123456789'' ! (n mod 10)])"

declare nat_to_str.simps [simp del]

definition int_to_str :: "int \<Rightarrow> string" where
  "int_to_str i = (if i < 0 then CHR ''-'' # nat_to_str (nat (- i)) else nat_to_str (nat i))"

text \<open>
  \<open>int(v)\<close>: a float is truncated towards zero, NaN and the infinities raise.
\<close>

fun py_int :: "builtins \<Rightarrow> pyval \<Rightarrow> pyerror + pyval" where
  "py_int py PNone = Inl TypeError"
| "py_int py (PStr s) = (case str_to_int py s of None \<Rightarrow> Inl ValueError | Some i \<Rightarrow> Inr (PInt i))"
| "py_int py (PInt i) = Inr (PInt i)"
| "py_int py (PFloat FNan) = Inl ValueError"
| "py_int py (PFloat (FInf s)) = Inl OverflowError"
| "py_int py (PFloat (FFin x)) = Inr (PInt (if 0 \<le> x then \<lfloor>x\<rfloor> else \<lceil>x\<rceil>))"

text \<open>
  \<open>float(v)\<close>.  Finite floats are unbounded here, so the \<open>OverflowError\<close> of an \<open>int\<close>
  beyond the range of a double is not represented.
\<close>

fun py_float :: "builtins \<Rightarrow> pyval \<Rightarrow> pyerror + pyval" where
  "py_float py PNone = Inl TypeError"
| "py_float py (PStr s) =
     (case str_to_float py s of None \<Rightarrow> Inl ValueError | Some f \<Rightarrow> Inr (PFloat f))"
| "py_float py (PInt i) = Inr (PFloat (FFin (of_int i)))"
| "py_float py (PFloat f) = Inr (PFloat f)"

text \<open>\<open>str(v)\<close>.\<close>

fun py_str :: "builtins \<Rightarrow> pyval \<Rightarrow> pyval" where
  "py_str py PNone = PStr ''None''"
| "py_str py (PStr s) = PStr s"
| "py_str py (PInt i) = PStr (int_to_str i)"
| "py_str py (PFloat f) = PStr (float_to_str py f)"

text \<open>
  The three classifications of a column.  The source writes them as the strings
  \<open>"integer"\<close>, \<open>"float"\<close> and \<open>"string"\<close>.
\<close>

datatype dataType = TInteger | TFloat | TString

text \<open>\<open>self.__castD[dataType](v)\<close> with \<open>__castD = {"integer": int, "float": float, "string": str}\<close>.\<close>

fun castD :: "builtins \<Rightarrow> dataType \<Rightarrow> pyval \<Rightarrow> pyerror + pyval" where
  "castD py TInteger v = py_int py v"
| "castD py TFloat v = py_float py v"
| "castD py TString v = Inr (py_str py v)"

text \<open>The value has the Python type that the classification names.\<close>

fun has_type :: "dataType \<Rightarrow> pyval \<Rightarrow> bool" where
  "has_type TInteger v = (case v of PInt i \<Rightarrow> True | _ \<Rightarrow> False)"
| "has_type TFloat v = (case v of PFloat f \<Rightarrow> True | _ \<Rightarrow> False)"
| "has_type TString v = (case v of PStr s \<Rightarrow> True | _ \<Rightarrow> False)"

section \<open>Ordering and sorting of cell values\<close>

text \<open>\<open>s < t\<close> on strings: lexicographic on the character codes.\<close>

fun str_lt :: "string \<Rightarrow> string \<Rightarrow> bool" where
  "str_lt [] [] = False"
| "str_lt [] (d # t) = True"
| "str_lt (c # s) [] = False"
| "str_lt (c # s) (d # t) = ((of_char c :: nat) < of_char d \<or> (c = d \<and> str_lt s t))"

text \<open>
  \<open>a < b\<close> on cell values: strings with strings, numbers with numbers; every other pair,
  and every pair with \<open>None\<close>, raises \<open>TypeError\<close>.
\<close>

fun py_lt :: "pyval \<Rightarrow> pyval \<Rightarrow> pyerror + bool" where
  "py_lt (PStr s) (PStr t) = Inr (str_lt s t)"
| "py_lt (PInt i) (PInt j) = Inr (i < j)"
| "py_lt (PInt i) (PFloat b) = Inr (float_lt (FFin (of_int i)) b)"
| "py_lt (PFloat a) (PInt j) = Inr (float_lt a (FFin (of_int j)))"
| "py_lt (PFloat a) (PFloat b) = Inr (float_lt a b)"
| "py_lt _ _ = Inl TypeError"

text \<open>
  \<open>sorted(xs)\<close>: a stable sort that only asks \<open><\<close>, written as insertion from the right.
  It raises \<open>TypeError\<close> exactly when CPython's sort does (two or more elements, not all
  strings and not all numbers), and gives CPython's result whenever \<open><\<close> orders the
  elements totally.  With a NaN among the elements CPython's result depends on its
  merge strategy; no statement below sorts a NaN.
\<close>

fun py_insort :: "pyval \<Rightarrow> pyval list \<Rightarrow> pyerror + pyval list" where
  "py_insort x [] = Inr [x]"
| "py_insort x (y # ys) =
     (case py_lt y x of
        Inl e \<Rightarrow> Inl e
      | Inr True \<Rightarrow> (case py_insort x ys of Inl e \<Rightarrow> Inl e | Inr zs \<Rightarrow> Inr (y # zs))
      | Inr False \<Rightarrow> Inr (x # y # ys))"

fun py_sorted :: "pyval list \<Rightarrow> pyerror + pyval list" where
  "py_sorted [] = Inr []"
| "py_sorted (x # xs) = (case py_sorted xs of Inl e \<Rightarrow> Inl e | Inr ys \<Rightarrow> py_insort x ys)"

text \<open>
  \<open>xs == ys\<close> on lists: equal length and \<open>==\<close> elementwise.  The cells of two tables are
  taken to be distinct objects, so the identity shortcut of list comparison plays no role.
\<close>

definition py_list_eq :: "pyval list \<Rightarrow> pyval list \<Rightarrow> bool" where
  "py_list_eq xs ys = list_all2 py_eq xs ys"

section \<open>The schema resolver and the table\<close>

text \<open>
  \<open>DictionaryApi\<close> is injected and lies outside the sources at hand.  Its three lookups
  are parameters: given the category name and the attribute name, each raises or
  returns a value.
\<close>

record dictionaryApi =
  getTypeCode :: "string \<Rightarrow> string \<Rightarrow> pyerror + pyval"
  getTypePrimitive :: "string \<Rightarrow> string \<Rightarrow> pyerror + pyval"
  getMandatoryCode :: "string \<Rightarrow> string \<Rightarrow> pyerror + pyval"

text \<open>
  The base class \<open>DataCategory\<close>: a name, the ordered attribute names, the rows, and the
  raise-on-error flag.  Rows are distinct list objects.
\<close>

record dataCategory =
  name :: string
  attributeNameList :: "string list"
  data :: "pyval list list"
  raiseExceptions :: bool

text \<open>
  \<open>DataCategoryTyped\<close> adds the resolver handle (\<open>None\<close> when none was supplied) and the
  dictionary \<open>__attributeTypeD\<close> of the types applied so far.
\<close>

record dataCategoryTyped = dataCategory +
  dApi :: "dictionaryApi option"
  attributeTypeD :: "string \<rightharpoonup> dataType"

text \<open>Modelled from the spec: the base-class accessor of the table name.\<close>

definition getName :: "'a dataCategory_scheme \<Rightarrow> string" where
  "getName dc = name dc"

text \<open>Modelled from the spec: the base-class accessor of the ordered column-name list.\<close>

definition getAttributeList :: "'a dataCategory_scheme \<Rightarrow> string list" where
  "getAttributeList dc = attributeNameList dc"

text \<open>Modelled from the spec: the base-class accessor of the row count.\<close>

definition getRowCount :: "'a dataCategory_scheme \<Rightarrow> nat" where
  "getRowCount dc = length (data dc)"

text \<open>The position of the first occurrence of a name in a list, as \<open>list.index\<close>.\<close>

fun index_of :: "string \<Rightarrow> string list \<Rightarrow> nat option" where
  "index_of a [] = None"
| "index_of a (b # bs) = (if a = b then Some 0 else map_option Suc (index_of a bs))"

text \<open>
  Modelled from the spec: the base-class column-value accessor, which returns the full
  value list of a column, one value for each row.  A name that is not a column is a
  \<open>ValueError\<close> and a row without a cell at the column's position an \<open>IndexError\<close>.
\<close>

definition getAttributeValueList :: "'a dataCategory_scheme \<Rightarrow> string \<Rightarrow> pyerror + pyval list" where
  "getAttributeValueList dc atName =
     (case index_of atName (attributeNameList dc) of
        None \<Rightarrow> Inl ValueError
      | Some idx \<Rightarrow>
          if list_all (\<lambda>row. idx < length row) (data dc)
          then Inr (map (\<lambda>row. row ! idx) (data dc))
          else Inl IndexError)"

section \<open>Resolving the type of a column\<close>

definition difficult_attributes :: "string list" where
  "difficult_attributes =
     [''concentration_range'', ''pdb_chain_residue_range'', ''axial_symmetry'',
      ''concentration_range'', ''point_symmetry'', ''used_frames_per_image'',
      ''temperature'', ''pH'']"

text \<open>\<open>sub in s\<close> on strings: \<open>sub\<close> occurs in \<open>s\<close> as a contiguous substring.\<close>

fun startswith :: "string \<Rightarrow> string \<Rightarrow> bool" where
  "startswith [] s = True"
| "startswith (c # cs) [] = False"
| "startswith (c # cs) (d # s) = (c = d \<and> startswith cs s)"

fun str_contains :: "string \<Rightarrow> string \<Rightarrow> bool" where
  "str_contains sub [] = (sub = [])"
| "str_contains sub (c # s) = (startswith sub (c # s) \<or> str_contains sub s)"

text \<open>\<open>sub in v\<close> for a string \<open>sub\<close>: \<open>TypeError\<close> unless \<open>v\<close> is a string.\<close>

fun py_str_in :: "string \<Rightarrow> pyval \<Rightarrow> pyerror + bool" where
  "py_str_in sub (PStr s) = Inr (str_contains sub s)"
| "py_str_in sub _ = Inl TypeError"

text \<open>
  \<open>__getAttributeInfo(atName)\<close>.  Without a resolver the first method call raises
  \<open>AttributeError\<close>.  The three lookups come first, then the classification, and the
  exception list is consulted last.
\<close>

definition priv_getAttributeInfo :: "dataCategoryTyped \<Rightarrow> string \<Rightarrow> pyerror + (dataType \<times> bool)" where
  "priv_getAttributeInfo self atName =
     (case dApi self of
        None \<Rightarrow> Inl AttributeError
      | Some api \<Rightarrow>
         (case getTypeCode api (getName self) atName of
            Inl e \<Rightarrow> Inl e
          | Inr cifDataType \<Rightarrow>
         (case getTypePrimitive api (getName self) atName of
            Inl e \<Rightarrow> Inl e
          | Inr cifPrimitiveType \<Rightarrow>
         (case getMandatoryCode api (getName self) atName of
            Inl e \<Rightarrow> Inl e
          | Inr mandatoryCode \<Rightarrow>
         (let isMandatory =
                py_in mandatoryCode [PStr ''yes'', PStr ''implicit'', PStr ''implicit-ordinal'']
          in case py_str_in ''int'' cifDataType of
               Inl e \<Rightarrow> Inl e
             | Inr isInt \<Rightarrow>
                 (let dataType = (if isInt then TInteger
                                  else if py_eq cifPrimitiveType (PStr ''numb'') then TFloat
                                  else TString)
                  in if atName \<in> set difficult_attributes then Inr (TString, isMandatory)
                     else Inr (dataType, isMandatory)))))))"

text \<open>
  \<open>getAttributeInfo(atName)\<close>: the public query.  The pair \<open>(None, None)\<close> of the source
  is the pair of two \<open>None\<close> options.
\<close>

definition getAttributeInfo ::
  "dataCategoryTyped \<Rightarrow> string \<Rightarrow> pyerror + (dataType option \<times> bool option)" where
  "getAttributeInfo self atName =
     (case priv_getAttributeInfo self atName of
        Inr (dataType, mandatoryCode) \<Rightarrow> Inr (Some dataType, Some mandatoryCode)
      | Inl e \<Rightarrow> Inr (None, None))"

section \<open>The casting pass\<close>

text \<open>
  Both passes run \<open>for row in self.data: row[ii] = ...\<close> over a column.  The loop below
  takes the cell operation \<open>f\<close>, which returns the new cell and what it logs.  A row with
  no cell at \<open>ii\<close> raises \<open>IndexError\<close>: the rows before it stay updated, the row itself
  and the rows after it stay as they were.
\<close>

fun forRows ::
  "(pyval \<Rightarrow> pyval \<times> 'l list) \<Rightarrow> nat \<Rightarrow> pyval list list \<Rightarrow> pyerror option \<times> pyval list list \<times> 'l list" where
  "forRows f ii [] = (None, [], [])"
| "forRows f ii (row # rows) =
     (if ii < length row then
        (case f (row ! ii) of
           (v, lg) \<Rightarrow>
             (case forRows f ii rows of
                (exc, rows', lgs) \<Rightarrow> (exc, row[ii := v] # rows', lg @ lgs)))
      else (Some IndexError, row # rows, []))"

text \<open>The keyword arguments of \<open>applyTypes\<close>.\<close>

record applyTypesArgs =
  ignoreCastErrors :: bool
  useCifUnknowns :: bool
  missingValueString :: pyval
  missingValueInteger :: pyval
  missingValueFloat :: pyval

text \<open>The two assignments to \<open>missingValue\<close> at the head of the column loop.\<close>

definition missingValue_of :: "applyTypesArgs \<Rightarrow> dataType \<Rightarrow> bool \<Rightarrow> pyval" where
  "missingValue_of args dataType isMandatory =
     (let missingValue =
            (if dataType = TInteger then missingValueInteger args
             else if dataType \<in> {TInteger, TFloat} then missingValueFloat args
             else missingValueString args)
      in if \<not> useCifUnknowns args then missingValue
         else if isMandatory then PStr ''.'' else PStr ''?'')"

text \<open>
  A line of \<open>logger.error("Cast error ...")\<close>: table name, attribute name, type and the raw
  value of the cell.
\<close>

type_synonym castError = "string \<times> string \<times> dataType \<times> pyval"

text \<open>
  The body of the row loop of \<open>applyTypes\<close>, on a cell that exists: the conditional
  expression under \<open>try\<close>, and the handler, which logs unless \<open>ignoreCastErrors\<close> and
  stores the substitute.
\<close>

definition castCell ::
  "builtins \<Rightarrow> bool \<Rightarrow> string \<Rightarrow> string \<Rightarrow> dataType \<Rightarrow> pyval \<Rightarrow> pyval \<Rightarrow> pyval \<times> castError list" where
  "castCell py ignoreErrors tableName atName dataType missingValue v =
     (if v \<noteq> PNone \<and> \<not> py_in v [PStr ''.'', PStr ''?''] then
        (case castD py dataType v of
           Inr w \<Rightarrow> (w, [])
         | Inl e \<Rightarrow>
             (missingValue, if \<not> ignoreErrors then [(tableName, atName, dataType, v)] else []))
      else (missingValue, []))"

text \<open>
  The column loop of \<open>applyTypes\<close>, from column \<open>ii\<close> on.  It returns the exception that
  ended it, if any, the object, the value of \<open>ok\<close> and the log.
\<close>

fun applyTypes_columns ::
  "builtins \<Rightarrow> applyTypesArgs \<Rightarrow> nat \<Rightarrow> string list \<Rightarrow> dataCategoryTyped \<Rightarrow> bool \<Rightarrow> castError list
   \<Rightarrow> pyerror option \<times> dataCategoryTyped \<times> bool \<times> castError list" where
  "applyTypes_columns py args ii [] self ok lg = (None, self, ok, lg)"
| "applyTypes_columns py args ii (atName # ats) self ok lg =
     (case priv_getAttributeInfo self atName of
        Inl e \<Rightarrow> (Some e, self, ok, lg)
      | Inr (dataType, isMandatory) \<Rightarrow>
          (case forRows (castCell py (ignoreCastErrors args) (getName self) atName dataType
                           (missingValue_of args dataType isMandatory)) ii (data self) of
             (Some e, rows', lg') \<Rightarrow> (Some e, self\<lparr>data := rows'\<rparr>, ok, lg @ lg')
           | (None, rows', lg') \<Rightarrow>
               applyTypes_columns py args (Suc ii) ats
                 (self\<lparr>data := rows', attributeTypeD := (attributeTypeD self)(atName \<mapsto> dataType)\<rparr>)
                 True (lg @ lg')))"

text \<open>
  \<open>applyTypes\<close>: what it returns or raises, the object afterwards, and the log.
\<close>

definition applyTypes ::
  "builtins \<Rightarrow> applyTypesArgs \<Rightarrow> dataCategoryTyped
   \<Rightarrow> (pyerror + bool) \<times> dataCategoryTyped \<times> castError list" where
  "applyTypes py args self =
     (case applyTypes_columns py args 0 (getAttributeList self) self False [] of
        (None, self', ok, lg) \<Rightarrow> (Inr ok, self', lg)
      | (Some e, self', ok, lg) \<Rightarrow>
          (if raiseExceptions self then Inl e else Inr ok, self', lg))"

section \<open>The string pass\<close>

text \<open>The body of the row loop of \<open>applyStringTypes\<close>, on a cell that exists.\<close>

definition stringCell :: "builtins \<Rightarrow> bool \<Rightarrow> pyval \<Rightarrow> pyval" where
  "stringCell py isMandatory v =
     (if v = PNone \<or> py_in v [PStr ''.'', PStr ''?''] then
        (if isMandatory then PStr ''.'' else PStr ''?'')
      else py_str py v)"

fun applyStringTypes_columns ::
  "builtins \<Rightarrow> nat \<Rightarrow> string list \<Rightarrow> dataCategoryTyped \<Rightarrow> bool
   \<Rightarrow> pyerror option \<times> dataCategoryTyped \<times> bool" where
  "applyStringTypes_columns py ii [] self ok = (None, self, ok)"
| "applyStringTypes_columns py ii (atName # ats) self ok =
     (case priv_getAttributeInfo self atName of
        Inl e \<Rightarrow> (Some e, self, ok)
      | Inr (_, isMandatory) \<Rightarrow>
          (case forRows (\<lambda>v. (stringCell py isMandatory v, [] :: unit list)) ii (data self) of
             (Some e, rows', _) \<Rightarrow> (Some e, self\<lparr>data := rows'\<rparr>, ok)
           | (None, rows', _) \<Rightarrow>
               applyStringTypes_columns py (Suc ii) ats
                 (self\<lparr>data := rows', attributeTypeD := (attributeTypeD self)(atName \<mapsto> TString)\<rparr>)
                 True))"

definition applyStringTypes ::
  "builtins \<Rightarrow> dataCategoryTyped \<Rightarrow> (pyerror + bool) \<times> dataCategoryTyped" where
  "applyStringTypes py self =
     (case applyStringTypes_columns py 0 (getAttributeList self) self False of
        (None, self', ok) \<Rightarrow> (Inr ok, self')
      | (Some e, self', ok) \<Rightarrow> (if raiseExceptions self then Inl e else Inr ok, self'))"

section \<open>Comparison of two tables\<close>

text \<open>
  The loop over \<open>zip(...)\<close> of a float column.  The local variable \<open>same\<close> of
  \<open>cmpAttributeValues\<close> is \<open>None\<close> while it is unbound; the loop assigns it once for each
  pair it visits and leaves it as it was when there is no pair.  The log line of the
  ordered branch has no effect on the result.
\<close>

fun closeLoop ::
  "pyfloat \<Rightarrow> pyfloat \<Rightarrow> bool option \<Rightarrow> (pyval \<times> pyval) list \<Rightarrow> pyerror + bool option" where
  "closeLoop relTol absTol same [] = Inr same"
| "closeLoop relTol absTol same ((aV, bV) # ps) =
     (case isClose aV bV relTol absTol of
        Inl e \<Rightarrow> Inl e
      | Inr s \<Rightarrow> if \<not> s then Inr (Some s) else closeLoop relTol absTol (Some s) ps)"

text \<open>
  The body of the loop over the common attributes, up to the \<open>append\<close>: the value of
  \<open>same\<close> after it, or the exception.
\<close>

definition cmpColumn ::
  "dataCategoryTyped \<Rightarrow> 'b dataCategory_scheme \<Rightarrow> bool \<Rightarrow> pyfloat \<Rightarrow> pyfloat \<Rightarrow> bool option
   \<Rightarrow> string \<Rightarrow> pyerror + bool option" where
  "cmpColumn self dcObj ignoreOrder relTol absTol same atName =
     (case priv_getAttributeInfo self atName of
        Inl e \<Rightarrow> Inl e
      | Inr (dataType, _) \<Rightarrow>
          if dataType \<in> {TString, TInteger} then
            (case getAttributeValueList self atName of
               Inl e \<Rightarrow> Inl e
             | Inr aVL \<Rightarrow>
                 if ignoreOrder then
                   (case py_sorted aVL of
                      Inl e \<Rightarrow> Inl e
                    | Inr sa \<Rightarrow>
                   (case getAttributeValueList dcObj atName of
                      Inl e \<Rightarrow> Inl e
                    | Inr bVL \<Rightarrow>
                   (case py_sorted bVL of
                      Inl e \<Rightarrow> Inl e
                    | Inr sb \<Rightarrow> Inr (Some (py_list_eq sa sb)))))
                 else
                   (case getAttributeValueList dcObj atName of
                      Inl e \<Rightarrow> Inl e
                    | Inr bVL \<Rightarrow> Inr (Some (py_list_eq aVL bVL))))
          else if dataType \<in> {TFloat} then
            (case getAttributeValueList self atName of
               Inl e \<Rightarrow> Inl e
             | Inr aVL \<Rightarrow>
            (case getAttributeValueList dcObj atName of
               Inl e \<Rightarrow> Inl e
             | Inr bVL \<Rightarrow>
                 if ignoreOrder then
                   (case py_sorted aVL of
                      Inl e \<Rightarrow> Inl e
                    | Inr sa \<Rightarrow>
                   (case py_sorted bVL of
                      Inl e \<Rightarrow> Inl e
                    | Inr sb \<Rightarrow> closeLoop relTol absTol same (zip sa sb)))
                 else closeLoop relTol absTol same (zip aVL bVL)))
          else Inr same)"

text \<open>
  The whole body of that loop: the \<open>append\<close> reads \<open>same\<close>, and reading it while it
  is unbound raises \<open>UnboundLocalError\<close>.  The result is the flag that is appended.
\<close>

definition cmpStep ::
  "dataCategoryTyped \<Rightarrow> 'b dataCategory_scheme \<Rightarrow> bool \<Rightarrow> pyfloat \<Rightarrow> pyfloat \<Rightarrow> bool option
   \<Rightarrow> string \<Rightarrow> pyerror + bool" where
  "cmpStep self dcObj ignoreOrder relTol absTol same atName =
     (case cmpColumn self dcObj ignoreOrder relTol absTol same atName of
        Inl e \<Rightarrow> Inl e
      | Inr None \<Rightarrow> Inl UnboundLocalError
      | Inr (Some b) \<Rightarrow> Inr b)"

text \<open>
  The loop over \<open>atNameComList\<close>, with the list \<open>rL\<close> built so far and the current \<open>same\<close>.
  It returns the exception that ended it, if any, and \<open>rL\<close>.
\<close>

fun cmpColumns ::
  "dataCategoryTyped \<Rightarrow> 'b dataCategory_scheme \<Rightarrow> bool \<Rightarrow> pyfloat \<Rightarrow> pyfloat
   \<Rightarrow> (string \<times> bool) list \<Rightarrow> bool option \<Rightarrow> string list
   \<Rightarrow> pyerror option \<times> (string \<times> bool) list" where
  "cmpColumns self dcObj ignoreOrder relTol absTol rL same [] = (None, rL)"
| "cmpColumns self dcObj ignoreOrder relTol absTol rL same (atName # ats) =
     (case cmpStep self dcObj ignoreOrder relTol absTol same atName of
        Inl e \<Rightarrow> (Some e, rL)
      | Inr b \<Rightarrow>
          cmpColumns self dcObj ignoreOrder relTol absTol (rL @ [(atName, b)]) (Some b) ats)"

text \<open>The value of \<open>same\<close> once the loop has appended the entries \<open>rL\<close>.\<close>

definition same_after :: "(string \<times> bool) list \<Rightarrow> bool option" where
  "same_after rL = (if rL = [] then None else Some (snd (last rL)))"

text \<open>
  \<open>list(sa & sb)\<close> enumerates the common attribute names in the iteration order of a
  set, which the program does not fix.  The enumeration is an argument of the model;
  this predicate says that a list is one.
\<close>

definition is_atNameComList ::
  "'a dataCategory_scheme \<Rightarrow> 'b dataCategory_scheme \<Rightarrow> string list \<Rightarrow> bool" where
  "is_atNameComList self dcObj atNameComList =
     (distinct atNameComList \<and>
      set atNameComList = set (getAttributeList self) \<inter> set (getAttributeList dcObj))"

text \<open>
  \<open>cmpAttributeValues(dcObj, ignoreOrder, floatRelTolerance, floatAbsTolerance)\<close>, given
  the enumeration \<open>atNameComList\<close>.
\<close>

definition cmpAttributeValues ::
  "dataCategoryTyped \<Rightarrow> 'b dataCategory_scheme \<Rightarrow> string list \<Rightarrow> bool \<Rightarrow> pyfloat \<Rightarrow> pyfloat
   \<Rightarrow> pyerror + (string \<times> bool) list" where
  "cmpAttributeValues self dcObj atNameComList ignoreOrder floatRelTolerance floatAbsTolerance =
     (let lenEq = (getRowCount self = getRowCount dcObj)
      in if \<not> lenEq then Inr (map (\<lambda>atName. (atName, False)) atNameComList)
         else
           (case cmpColumns self dcObj ignoreOrder floatRelTolerance floatAbsTolerance
                   [] None atNameComList of
              (None, rL) \<Rightarrow> Inr rL
            | (Some e, rL) \<Rightarrow> if raiseExceptions self then Inl e else Inr rL))"

section \<open>Example resolver and tables\<close>

text \<open>
  A resolver in the style of the PDBx dictionary: \<open>id\<close> is a mandatory integer, \<open>value\<close>
  an optional float, \<open>label\<close> an optional line of text, \<open>point_symmetry\<close> has the type
  code of the same name, and any other attribute is unknown (type code \<open>None\<close>).
\<close>

definition demo_api :: dictionaryApi where
  "demo_api =
     \<lparr>getTypeCode = (\<lambda>c a.
          if a = ''id'' then Inr (PStr ''int'')
          else if a = ''value'' then Inr (PStr ''float'')
          else if a = ''label'' then Inr (PStr ''line'')
          else if a = ''point_symmetry'' then Inr (PStr ''point_symmetry'')
          else Inr PNone),
      getTypePrimitive = (\<lambda>c a.
          if a = ''id'' \<or> a = ''value'' then Inr (PStr ''numb'') else Inr (PStr ''char'')),
      getMandatoryCode = (\<lambda>c a. if a = ''id'' then Inr (PStr ''yes'') else Inr (PStr ''no''))\<rparr>"

text \<open>A table with the given columns and rows over that resolver.\<close>

definition demo_table :: "string list \<Rightarrow> pyval list list \<Rightarrow> bool \<Rightarrow> dataCategoryTyped" where
  "demo_table ats rows raising =
     \<lparr>name = ''demo'', attributeNameList = ats, data = rows, raiseExceptions = raising,
      dApi = Some demo_api, attributeTypeD = Map.empty\<rparr>"

text \<open>
  Conversions for the examples: decimal digits for \<open>int\<close>, and for \<open>float\<close> the strings
  \<open>nan\<close> and \<open>1.5\<close> only.
\<close>

text \<open>The value of a decimal digit: its position in the string of the ten digits.\<close>

fun char_index :: "char \<Rightarrow> string \<Rightarrow> nat option" where
  "char_index c [] = None"
| "char_index c (d # ds) = (if c = d then Some 0 else map_option Suc (char_index c ds))"

definition digit_of :: "char \<Rightarrow> nat option" where
  "digit_of c = char_index c ''0123456789''"

fun digits_to_nat :: "nat \<Rightarrow> string \<Rightarrow> nat option" where
  "digits_to_nat acc [] = Some acc"
| "digits_to_nat acc (c # cs) =
     (case digit_of c of None \<Rightarrow> None | Some d \<Rightarrow> digits_to_nat (10 * acc + d) cs)"

definition demo_builtins :: builtins where
  "demo_builtins =
     \<lparr>str_to_int = (\<lambda>s. if s = [] then None else map_option int (digits_to_nat 0 s)),
      str_to_float = (\<lambda>s. if s = ''nan'' then Some FNan
                           else if s = ''1.5'' then Some (FFin (3 / 2)) else None),
      float_to_str = (\<lambda>f. case f of
                             FNan \<Rightarrow> ''nan''
                           | FInf s \<Rightarrow> (if s then ''inf'' else ''-inf'')
                           | FFin x \<Rightarrow> (if x = 3 / 2 then ''1.5''
                                       else int_to_str \<lfloor>x\<rfloor> @ ''.0''))\<rparr>"

text \<open>A raw table of three columns and three rows, and keyword arguments for the pass.\<close>

definition demo_raw :: dataCategoryTyped where
  "demo_raw =
     demo_table [''id'', ''value'', ''label'']
       [[PStr ''3'', PStr ''1.5'', PStr ''a''],
        [PStr ''.'', PStr ''?'', PNone],
        [PStr ''x'', PStr ''abc'', PStr ''?'']] True"

definition demo_args :: "bool \<Rightarrow> applyTypesArgs" where
  "demo_args cif =
     \<lparr>ignoreCastErrors = False, useCifUnknowns = cif, missingValueString = PStr ''n/a'',
      missingValueInteger = PInt (- 1), missingValueFloat = PNone\<rparr>"

text \<open>The same table after the casting pass, with and without the reserved markers.\<close>

definition demo_typed :: "bool \<Rightarrow> dataCategoryTyped" where
  "demo_typed cif =
     demo_raw
       \<lparr>data :=
          (if cif then
             [[PInt 3, PFloat (FFin (3 / 2)), PStr ''a''],
              [PStr ''.'', PStr ''?'', PStr ''?''],
              [PStr ''.'', PStr ''?'', PStr ''?'']]
           else
             [[PInt 3, PFloat (FFin (3 / 2)), PStr ''a''],
              [PInt (- 1), PNone, PStr ''n/a''],
              [PInt (- 1), PNone, PStr ''n/a'']]),
        attributeTypeD :=
          [''id'' \<mapsto> TInteger, ''value'' \<mapsto> TFloat, ''label'' \<mapsto> TString]\<rparr>"

definition demo_log :: "castError list" where
  "demo_log = [(''demo'', ''id'', TInteger, PStr ''x''), (''demo'', ''value'', TFloat, PStr ''abc'')]"

section \<open>Auxiliary notions for the proofs\<close>

text \<open>
  Column \<open>ii\<close> is done with respect to a cell operation \<open>g\<close> when every row has a cell
  there and \<open>g\<close> leaves it as it is.
\<close>

definition colDone :: "(pyval \<Rightarrow> pyval) \<Rightarrow> nat \<Rightarrow> pyval list list \<Rightarrow> bool" where
  "colDone g ii rows = (\<forall>row \<in> set rows. ii < length row \<and> g (row ! ii) = row ! ii)"

section \<open>Properties of the closeness predicate\<close>

lemma float_eq_refl: "a \<noteq> FNan \<Longrightarrow> float_eq a a"
  by (cases a) simp_all

text \<open>
  Claim C6.  Whenever the arguments are not both missing, not equal under \<open>==\<close> and not
  both floats (so their types differ, or exactly one of them is \<open>None\<close>), the predicate
  raises \<open>ValueError\<close>; it does not answer "not close".
\<close>

theorem isClose_incomparable_raises:
  assumes "\<not> (aV = PNone \<and> bV = PNone)"
    and "\<not> py_eq aV bV"
    and "\<not> (is_float aV \<and> is_float bV)"
  shows "isClose aV bV relTol absTol = Inl ValueError"
  using assms by (cases aV; cases bV) (simp_all add: isClose_def)

theorem isClose_incomparable_raises_witness:
  "isClose (PFloat (FFin 1)) PNone (FFin (1 / 100000)) (FFin (1 / 10000)) = Inl ValueError
   \<and> isClose (PStr ''?'') (PFloat (FFin 1)) (FFin (1 / 100000)) (FFin (1 / 10000)) = Inl ValueError"
  using isClose_incomparable_raises [of "PFloat (FFin 1)" PNone]
    isClose_incomparable_raises [of "PStr ''?''" "PFloat (FFin 1)"]
  by simp

text \<open>
  Claim C7, as amended.  A float that is not NaN is close to itself for all tolerances:
  the \<open>==\<close> branch answers before any tolerance is read.
\<close>

theorem isClose_same_float:
  assumes "x \<noteq> FNan"
  shows "isClose (PFloat x) (PFloat x) relTol absTol = Inr True"
  using assms by (simp add: isClose_def float_eq_refl)

theorem isClose_same_float_witness:
  "isClose (PFloat (FFin (3 / 2))) (PFloat (FFin (3 / 2))) (FFin 0) FNan = Inr True
   \<and> isClose (PFloat (FInf False)) (PFloat (FInf False)) FNan (FFin 0) = Inr True"
  using isClose_same_float [of "FFin (3 / 2)" "FFin 0" FNan]
    isClose_same_float [of "FInf False" FNan "FFin 0"]
  by simp

text \<open>
  NaN is a float, \<open>float('nan')\<close>, and it is not close to itself: \<open>nan == nan\<close> is false
  and so is \<open>nan <= t\<close> for every \<open>t\<close>.
\<close>

theorem isClose_nan_counterexample:
  "isClose (PFloat FNan) (PFloat FNan) (FFin (1 / 100000)) (FFin (1 / 10000)) = Inr False"
  by (simp add: isClose_def)

section \<open>Properties of the type resolution\<close>


lemma priv_getAttributeInfo_cong:
  assumes "dApi s' = dApi s" and "name s' = name s"
  shows "priv_getAttributeInfo s' a = priv_getAttributeInfo s a"
  unfolding priv_getAttributeInfo_def getName_def assms ..




text \<open>
  Claim C9.  The public query never raises: it always returns a pair, and the pair is
  \<open>(None, None)\<close> whenever the lookup fails, in particular when the table has no
  resolver.
\<close>

theorem getAttributeInfo_never_raises:
  "(\<exists>r. getAttributeInfo self atName = Inr r)
   \<and> (\<forall>e. priv_getAttributeInfo self atName = Inl e
          \<longrightarrow> getAttributeInfo self atName = Inr (None, None))
   \<and> (dApi self = None \<longrightarrow> getAttributeInfo self atName = Inr (None, None))"
  by (auto simp: getAttributeInfo_def priv_getAttributeInfo_def split: sum.splits prod.splits)

theorem getAttributeInfo_never_raises_witness:
  "getAttributeInfo ((demo_table [] [] True)\<lparr>dApi := None\<rparr>) ''id'' = Inr (None, None)
   \<and> priv_getAttributeInfo (demo_table [] [] True) ''unknown'' = Inl TypeError
   \<and> getAttributeInfo (demo_table [] [] True) ''unknown'' = Inr (None, None)"
proof -
  have a: "dApi ((demo_table [] [] True)\<lparr>dApi := None\<rparr>) = None" by simp
  have b: "priv_getAttributeInfo (demo_table [] [] True) ''unknown'' = Inl TypeError"
    by (simp add: priv_getAttributeInfo_def demo_table_def demo_api_def getName_def)
  from a b getAttributeInfo_never_raises [of "(demo_table [] [] True)\<lparr>dApi := None\<rparr>" "''id''"]
    getAttributeInfo_never_raises [of "demo_table [] [] True" "''unknown''"]
  show ?thesis by blast
qed

section \<open>Properties of the casting pass\<close>

lemma forRows_None:
  "forRows f ii rows = (None, rows', lg) \<Longrightarrow>
     (\<forall>row \<in> set rows. ii < length row) \<and> rows' = map (\<lambda>row. row[ii := fst (f (row ! ii))]) rows"
proof (induction rows arbitrary: rows' lg)
  case Nil
  then show ?case by simp
next
  case (Cons row rows)
  then show ?case
    by (auto split: if_splits prod.splits)
qed

lemma forRows_total:
  "\<forall>row \<in> set rows. ii < length row \<Longrightarrow> \<exists>lg. forRows f ii rows = (None, map (\<lambda>row. row[ii := fst (f (row ! ii))]) rows, lg)"
  by (induction rows) (auto split: prod.splits)

lemma py_int_type: "py_int py v = Inr w \<Longrightarrow> \<exists>i. w = PInt i"
  by (induction py v rule: py_int.induct) (auto split: option.splits)

lemma py_float_type: "py_float py v = Inr w \<Longrightarrow> \<exists>f. w = PFloat f"
  by (induction py v rule: py_float.induct) (auto split: option.splits)

lemma py_str_type: "\<exists>s. py_str py v = PStr s"
  by (cases v) simp_all

lemma castD_type: "castD py dataType v = Inr w \<Longrightarrow> has_type dataType w"
  using py_int_type [of py v w] py_float_type [of py v w] py_str_type [of py v]
  by (cases dataType) auto

lemma castCell_typed:
  "has_type dataType (fst (castCell py ice tn an dataType mv v)) \<or> fst (castCell py ice tn an dataType mv v) = mv"
  by (auto simp: castCell_def split: sum.splits dest: castD_type)


text \<open>
  The cells after a column loop that ended without an exception: the rows keep their
  number and their lengths, every row has a cell in each column of the loop, that cell
  is the result of the cell operation on the old cell, and the other cells are as before.
\<close>

lemma applyTypes_columns_cells:
  "applyTypes_columns py args ii ats self ok lg = (None, self', ok', lg') \<Longrightarrow>
     length (data self') = length (data self) \<and>
     (\<forall>k < length (data self).
        length (data self' ! k) = length (data self ! k) \<and>
        (\<forall>j. ii \<le> j \<and> j < ii + length ats \<longrightarrow> j < length (data self ! k)) \<and>
        (\<forall>j < length (data self ! k).
           (ii \<le> j \<and> j < ii + length ats \<longrightarrow>
              (\<forall>dt m. priv_getAttributeInfo self (ats ! (j - ii)) = Inr (dt, m) \<longrightarrow>
                 data self' ! k ! j =
                   fst (castCell py (ignoreCastErrors args) (getName self) (ats ! (j - ii)) dt
                          (missingValue_of args dt m) (data self ! k ! j)))) \<and>
           (\<not> (ii \<le> j \<and> j < ii + length ats) \<longrightarrow> data self' ! k ! j = data self ! k ! j)))"
proof (induction ats arbitrary: ii self ok lg)
  case Nil
  then show ?case by auto
next
  case (Cons atName ats)
  from Cons.prems obtain dataType isMandatory where
    info: "priv_getAttributeInfo self atName = Inr (dataType, isMandatory)"
    by (auto split: sum.splits)
  let ?f = "castCell py (ignoreCastErrors args) (getName self) atName dataType
              (missingValue_of args dataType isMandatory)"
  from Cons.prems info obtain rows1 lg1 where
    rows: "forRows ?f ii (data self) = (None, rows1, lg1)"
    by (auto split: sum.splits prod.splits option.splits)
  let ?s1 = "self\<lparr>data := rows1, attributeTypeD := (attributeTypeD self)(atName \<mapsto> dataType)\<rparr>"
  from Cons.prems info rows have
    rec: "applyTypes_columns py args (Suc ii) ats ?s1 True (lg @ lg1) = (None, self', ok', lg')"
    by simp
  note ih = Cons.IH [OF rec]
  from forRows_None [OF rows] have
    long: "\<forall>row \<in> set (data self). ii < length row" and
    r1: "rows1 = map (\<lambda>row. row[ii := fst (?f (row ! ii))]) (data self)"
    by simp_all
  have info1: "priv_getAttributeInfo ?s1 a = priv_getAttributeInfo self a" for a
    by (rule priv_getAttributeInfo_cong) simp_all
  have name1: "getName ?s1 = getName self" by (simp add: getName_def)
  show ?case
  proof (intro conjI allI impI)
    show "length (data self') = length (data self)" using ih r1 by simp
  next
    fix k assume k: "k < length (data self)"
    then show "length (data self' ! k) = length (data self ! k)" using ih r1 by simp
  next
    fix k j assume k: "k < length (data self)" and j: "ii \<le> j \<and> j < ii + length (atName # ats)"
    show "j < length (data self ! k)"
    proof (cases "j = ii")
      case True
      then show ?thesis using long k by simp
    next
      case False
      with j have "Suc ii \<le> j \<and> j < Suc ii + length ats" by simp
      with ih k r1 show ?thesis by simp
    qed
  next
    fix k j dt m
    assume k: "k < length (data self)" and jl: "j < length (data self ! k)"
      and j: "ii \<le> j \<and> j < ii + length (atName # ats)"
      and pi: "priv_getAttributeInfo self ((atName # ats) ! (j - ii)) = Inr (dt, m)"
    show "data self' ! k ! j =
            fst (castCell py (ignoreCastErrors args) (getName self) ((atName # ats) ! (j - ii)) dt
                   (missingValue_of args dt m) (data self ! k ! j))"
    proof (cases "j = ii")
      case True
      from ih k r1 jl True have "data self' ! k ! j = rows1 ! k ! j" by simp
      also have "\<dots> = fst (?f (data self ! k ! ii))" using r1 k jl True by simp
      finally show ?thesis using True pi info by simp
    next
      case False
      with j have j': "Suc ii \<le> j \<and> j < Suc ii + length ats" by simp
      have nth: "(atName # ats) ! (j - ii) = ats ! (j - Suc ii)" using j False by (simp add: nth_Cons')
      have jl1: "j < length (rows1 ! k)" using r1 k jl by simp
      from ih k r1 have "\<forall>j < length (rows1 ! k).
           (Suc ii \<le> j \<and> j < Suc ii + length ats \<longrightarrow>
              (\<forall>dt m. priv_getAttributeInfo ?s1 (ats ! (j - Suc ii)) = Inr (dt, m) \<longrightarrow>
                 data self' ! k ! j =
                   fst (castCell py (ignoreCastErrors args) (getName ?s1) (ats ! (j - Suc ii)) dt
                          (missingValue_of args dt m) (rows1 ! k ! j))))"
        by simp
      with jl1 j' pi nth have "data self' ! k ! j =
                   fst (castCell py (ignoreCastErrors args) (getName ?s1) (ats ! (j - Suc ii)) dt
                          (missingValue_of args dt m) (rows1 ! k ! j))"
        by (simp add: info1)
      moreover have "rows1 ! k ! j = data self ! k ! j" using r1 k False by simp
      ultimately show ?thesis using nth name1 by simp
    qed
  next
    fix k j assume k: "k < length (data self)" and jl: "j < length (data self ! k)"
      and j: "\<not> (ii \<le> j \<and> j < ii + length (atName # ats))"
    then have "\<not> (Suc ii \<le> j \<and> j < Suc ii + length ats)" "j \<noteq> ii" by auto
    moreover have "j < length (rows1 ! k)" using r1 k jl by simp
    ultimately have "data self' ! k ! j = rows1 ! k ! j" using ih k r1 by simp
    also have "\<dots> = data self ! k ! j" using r1 k \<open>j \<noteq> ii\<close> by simp
    finally show "data self' ! k ! j = data self ! k ! j" .
  qed
qed

text \<open>
  The loop ends without an exception whenever the resolver classifies every column and
  every row has a cell for every column; \<open>ok\<close> is then true unless there is no column.
\<close>

lemma applyTypes_columns_total:
  "\<forall>a \<in> set ats. \<exists>dt m. priv_getAttributeInfo self a = Inr (dt, m) \<Longrightarrow>
   \<forall>row \<in> set (data self). ii + length ats \<le> length row \<Longrightarrow>
   \<exists>self' lg'. applyTypes_columns py args ii ats self ok lg = (None, self', ats \<noteq> [] \<or> ok, lg')"
proof (induction ats arbitrary: ii self ok lg)
  case Nil
  then show ?case by simp
next
  case (Cons atName ats)
  from Cons.prems(1) obtain dt m where info: "priv_getAttributeInfo self atName = Inr (dt, m)"
    by auto
  let ?f = "castCell py (ignoreCastErrors args) (getName self) atName dt (missingValue_of args dt m)"
  from Cons.prems(2) have "\<forall>row \<in> set (data self). ii < length row" by auto
  from forRows_total [OF this, of ?f] obtain lg1 where
    rows: "forRows ?f ii (data self) = (None, map (\<lambda>row. row[ii := fst (?f (row ! ii))]) (data self), lg1)"
    by blast
  let ?s1 = "self\<lparr>data := map (\<lambda>row. row[ii := fst (?f (row ! ii))]) (data self),
                   attributeTypeD := (attributeTypeD self)(atName \<mapsto> dt)\<rparr>"
  have a: "\<forall>a \<in> set ats. \<exists>dt m. priv_getAttributeInfo ?s1 a = Inr (dt, m)"
    using Cons.prems(1) by (simp add: priv_getAttributeInfo_cong [of ?s1 self])
  have b: "\<forall>row \<in> set (data ?s1). Suc ii + length ats \<le> length row"
    using Cons.prems(2) by auto
  from Cons.IH [OF a b, where ok = True and lg = "lg @ lg1"] info rows show ?case by auto
qed

lemmas cast_eval = applyTypes_def getAttributeList_def priv_getAttributeInfo_def getName_def demo_table_def demo_api_def
  difficult_attributes_def py_in_def castCell_def missingValue_of_def demo_builtins_def digit_of_def

lemma demo_info:
  "priv_getAttributeInfo demo_raw ''id'' = Inr (TInteger, True)"
  "priv_getAttributeInfo demo_raw ''value'' = Inr (TFloat, False)"
  "priv_getAttributeInfo demo_raw ''label'' = Inr (TString, False)"
  by (simp_all add: priv_getAttributeInfo_def getName_def demo_raw_def demo_table_def demo_api_def
      difficult_attributes_def py_in_def)

lemma demo_shape:
  "getAttributeList demo_raw = [''id'', ''value'', ''label'']"
  "data demo_raw = [[PStr ''3'', PStr ''1.5'', PStr ''a''],
        [PStr ''.'', PStr ''?'', PNone],
        [PStr ''x'', PStr ''abc'', PStr ''?'']]"
  by (simp_all add: getAttributeList_def demo_raw_def demo_table_def)

lemma demo_cast_run:
  "applyTypes_columns demo_builtins (demo_args True) 0 (getAttributeList demo_raw) demo_raw False []
     = (None, demo_typed True, True, demo_log)"
  by (simp add: cast_eval demo_raw_def demo_args_def demo_typed_def demo_log_def)


text \<open>
  After a casting pass whose column loop ended without an exception, every row has a
  cell in every column, and the cell is a value of the column's resolved type or the
  column's missing substitute.  The arguments of the pass are arbitrary, so this holds
  with and without \<open>ignoreCastErrors\<close>.  When \<open>raiseExceptions\<close> is set these are exactly
  the passes that return.
\<close>

lemma applyTypes_completed_cells:
  assumes "applyTypes_columns py args 0 (getAttributeList self) self False [] = (None, self', ok, lg)"
    and "j < length (getAttributeList self)"
    and "priv_getAttributeInfo self (getAttributeList self ! j) = Inr (dataType, isMandatory)"
    and "row \<in> set (data self')"
  shows "applyTypes py args self = (Inr ok, self', lg) \<and> j < length row
         \<and> (has_type dataType (row ! j) \<or> row ! j = missingValue_of args dataType isMandatory)"
proof -
  from assms(4) obtain k where k: "k < length (data self')" "row = data self' ! k"
    by (auto simp: in_set_conv_nth)
  note c = applyTypes_columns_cells [OF assms(1)]
  from c k have k': "k < length (data self)" by simp
  from c k' assms(2) have jl: "j < length (data self ! k)" by simp
  from c k' k have len: "length row = length (data self ! k)" by simp
  from c k' jl assms(2,3) k have
    "row ! j = fst (castCell py (ignoreCastErrors args) (getName self) (getAttributeList self ! j)
                      dataType (missingValue_of args dataType isMandatory) (data self ! k ! j))"
    by simp
  with castCell_typed [of dataType py "ignoreCastErrors args" "getName self"
      "getAttributeList self ! j" "missingValue_of args dataType isMandatory" "data self ! k ! j"]
  have "has_type dataType (row ! j) \<or> row ! j = missingValue_of args dataType isMandatory"
    by simp
  moreover have "applyTypes py args self = (Inr ok, self', lg)"
    using assms(1) by (simp add: applyTypes_def)
  ultimately show ?thesis using jl len by simp
qed

lemma applyTypes_completed_cells_example:
  "applyTypes demo_builtins (demo_args True) demo_raw = (Inr True, demo_typed True, demo_log)
   \<and> has_type TInteger (PInt 3)
   \<and> PStr ''?'' = missingValue_of (demo_args True) TFloat False"
proof -
  have j0: "0 < length (getAttributeList demo_raw)" and j1: "1 < length (getAttributeList demo_raw)"
    by (simp_all add: demo_shape)
  have i0: "priv_getAttributeInfo demo_raw (getAttributeList demo_raw ! 0) = Inr (TInteger, True)"
    by (simp add: demo_shape demo_info)
  have i1: "priv_getAttributeInfo demo_raw (getAttributeList demo_raw ! 1) = Inr (TFloat, False)"
    by (simp add: demo_shape demo_info)
  have r0: "[PInt 3, PFloat (FFin (3 / 2)), PStr ''a''] \<in> set (data (demo_typed True))"
    by (simp add: demo_typed_def)
  have r2: "[PStr ''.'', PStr ''?'', PStr ''?''] \<in> set (data (demo_typed True))"
    by (simp add: demo_typed_def)
  from applyTypes_completed_cells [OF demo_cast_run j0 i0 r0]
    applyTypes_completed_cells [OF demo_cast_run j1 i1 r2]
  show ?thesis by simp
qed

text \<open>
  Claim C1.  The claim asks that after a successful pass every cell is of its column's
  resolved type or is the column's substitute.  The method reports success by returning
  \<open>True\<close>, but \<open>ok\<close> is set at the end of each column inside the loop, and a table that
  swallows exceptions returns it after the handler.  On the columns \<open>label\<close>, \<open>unknown\<close>
  and \<open>id\<close> the resolver fails on the second one: the pass returns \<open>True\<close>, only \<open>label\<close>
  is recorded, and the integer column \<open>id\<close> still holds the raw text \<open>3\<close>, which is
  neither an integer nor the substitute of that column.
\<close>

theorem applyTypes_success_after_abort:
  "applyTypes demo_builtins (demo_args True)
     (demo_table [''label'', ''unknown'', ''id''] [[PStr ''a'', PStr ''raw'', PStr ''3'']] False)
   = (Inr True,
      (demo_table [''label'', ''unknown'', ''id''] [[PStr ''a'', PStr ''raw'', PStr ''3'']] False)
        \<lparr>attributeTypeD := [''label'' \<mapsto> TString]\<rparr>, [])
   \<and> priv_getAttributeInfo
        (demo_table [''label'', ''unknown'', ''id''] [[PStr ''a'', PStr ''raw'', PStr ''3'']] False)
        ''id'' = Inr (TInteger, True)
   \<and> has_type TInteger (PStr ''3'') = False
   \<and> missingValue_of (demo_args True) TInteger True = PStr ''.''"
proof -
  let ?t = "demo_table [''label'', ''unknown'', ''id''] [[PStr ''a'', PStr ''raw'', PStr ''3'']] False"
  have 1: "applyTypes demo_builtins (demo_args True) ?t
             = (Inr True, ?t\<lparr>attributeTypeD := [''label'' \<mapsto> TString]\<rparr>, [])"
    by (simp add: cast_eval demo_args_def)
  have 2: "priv_getAttributeInfo ?t ''id'' = Inr (TInteger, True)"
    by (simp add: priv_getAttributeInfo_def getName_def demo_table_def demo_api_def
        difficult_attributes_def py_in_def)
  have 3: "has_type TInteger (PStr ''3'') = False" by simp
  have 4: "missingValue_of (demo_args True) TInteger True = PStr ''.''"
    by (simp add: missingValue_of_def demo_args_def)
  from 1 2 3 4 show ?thesis by blast
qed



section \<open>Properties of the string pass\<close>

lemma nat_to_str_digits: "nat_to_str n \<noteq> [] \<and> set (nat_to_str n) \<subseteq> set ''0123456789''"
proof (induction n rule: nat_to_str.induct)
  case (1 n)
  have d: "k < 10 \<Longrightarrow> ''0123456789'' ! k \<in> set ''0123456789''" for k :: nat
    by (rule nth_mem) simp
  show ?case
  proof (cases "n < 10")
    case True
    then show ?thesis using d [of n] by (subst nat_to_str.simps, subst (2) nat_to_str.simps) simp
  next
    case False
    then show ?thesis using 1 d [of "n mod 10"]
      by (subst nat_to_str.simps, subst (2) nat_to_str.simps) simp
  qed
qed

lemma int_to_str_not_marker: "int_to_str i \<noteq> ''.'' \<and> int_to_str i \<noteq> ''?''"
proof (cases "i < 0")
  case True
  then show ?thesis by (simp add: int_to_str_def)
next
  case False
  have "CHR ''.'' \<notin> set (nat_to_str (nat i))" "CHR ''?'' \<notin> set (nat_to_str (nat i))"
    using nat_to_str_digits [of "nat i"] by auto
  then have "nat_to_str (nat i) \<noteq> ''.''" "nat_to_str (nat i) \<noteq> ''?''" by auto
  with False show ?thesis by (simp add: int_to_str_def)
qed

lemma stringCell_idem:
  assumes "\<forall>f. float_to_str py f \<noteq> ''.'' \<and> float_to_str py f \<noteq> ''?''"
  shows "stringCell py m (stringCell py m v) = stringCell py m v"
  using assms int_to_str_not_marker
  by (cases v) (auto simp: stringCell_def py_in_def)

lemma forRows_colDone:
  "colDone g ii rows \<Longrightarrow> forRows (\<lambda>v. (g v, [] :: unit list)) ii rows = (None, rows, [])"
  by (induction rows) (auto simp: colDone_def)

lemma forRows_makes_colDone:
  assumes "\<forall>v. g (g v) = g v" and "forRows (\<lambda>v. (g v, l v)) ii rows = (None, rows', lg)"
  shows "colDone g ii rows'"
proof -
  have gg: "g (g v) = g v" for v using assms(1) by simp
  from forRows_None [OF assms(2)] show ?thesis by (simp add: colDone_def gg)
qed

lemma forRows_idem:
  assumes "\<forall>v. g (g v) = g v"
  shows "forRows (\<lambda>v. (g v, [] :: unit list)) ii rows = (exc, rows', lg) \<Longrightarrow>
         forRows (\<lambda>v. (g v, [] :: unit list)) ii rows' = (exc, rows', lg)"
proof (induction rows arbitrary: exc rows' lg)
  case Nil
  then show ?case by simp
next
  case (Cons row rows)
  have gg: "g (g v) = g v" for v using assms by simp
  show ?case
  proof (cases "ii < length row")
    case False
    with Cons.prems show ?thesis by auto
  next
    case True
    obtain exc1 rows1 lg1 where r: "forRows (\<lambda>v. (g v, [] :: unit list)) ii rows = (exc1, rows1, lg1)"
      by (cases "forRows (\<lambda>v. (g v, [] :: unit list)) ii rows") auto
    from Cons.prems True r have
      eq: "exc = exc1" "rows' = row[ii := g (row ! ii)] # rows1" "lg = lg1"
      by simp_all
    from Cons.IH [OF r] True show ?thesis unfolding eq by (simp add: gg)
  qed
qed

lemma forRows_other_colDone:
  "colDone g ii rows \<Longrightarrow> j \<noteq> ii \<Longrightarrow> colDone g ii (fst (snd (forRows f j rows)))"
  by (induction rows) (auto simp: colDone_def split: prod.splits)

text \<open>
  What the column loop of the string pass keeps: the resolver, the names, the flag,
  every column before its start that is done, and every type that is already string.
\<close>

lemma applyStringTypes_columns_keeps:
  "applyStringTypes_columns py j ats self ok = (e, self', ok') \<Longrightarrow>
     dApi self' = dApi self \<and> name self' = name self \<and>
     attributeNameList self' = attributeNameList self \<and> raiseExceptions self' = raiseExceptions self \<and>
     (\<forall>g ii. ii < j \<and> colDone g ii (data self) \<longrightarrow> colDone g ii (data self')) \<and>
     (\<forall>a. attributeTypeD self a = Some TString \<longrightarrow> attributeTypeD self' a = Some TString)"
proof (induction ats arbitrary: j self ok)
  case Nil
  then show ?case by simp
next
  case (Cons atName ats)
  show ?case
  proof (cases "priv_getAttributeInfo self atName")
    case (Inl x)
    with Cons.prems show ?thesis by simp
  next
    case (Inr p)
    obtain dt m where p: "p = (dt, m)" by (cases p)
    let ?f = "\<lambda>v. (stringCell py m v, [] :: unit list)"
    obtain exc rows1 lg1 where rows: "forRows ?f j (data self) = (exc, rows1, lg1)"
      by (cases "forRows ?f j (data self)") auto
    have dn: "ii < j \<and> colDone g ii (data self) \<longrightarrow> colDone g ii rows1" for g ii
      using forRows_other_colDone [of g ii "data self" j ?f] rows by auto
    show ?thesis
    proof (cases exc)
      case None
      let ?s1 = "self\<lparr>data := rows1, attributeTypeD := (attributeTypeD self)(atName \<mapsto> TString)\<rparr>"
      from Cons.prems Inr p rows None have
        "applyStringTypes_columns py (Suc j) ats ?s1 True = (e, self', ok')" by simp
      from Cons.IH [OF this] dn show ?thesis by auto
    next
      case (Some x)
      with Cons.prems Inr p rows dn show ?thesis by auto
    qed
  qed
qed

lemma applyStringTypes_columns_idem:
  assumes fmt: "\<forall>f. float_to_str py f \<noteq> ''.'' \<and> float_to_str py f \<noteq> ''?''"
  shows "applyStringTypes_columns py ii ats self ok = (e, self', ok') \<Longrightarrow>
         applyStringTypes_columns py ii ats self' ok = (e, self', ok')"
proof (induction ats arbitrary: ii self ok)
  case Nil
  then show ?case by simp
next
  case (Cons atName ats)
  show ?case
  proof (cases "priv_getAttributeInfo self atName")
    case (Inl x)
    with Cons.prems show ?thesis by auto
  next
    case (Inr p)
    obtain dt m where p: "p = (dt, m)" by (cases p)
    let ?g = "stringCell py m"
    let ?f = "\<lambda>v. (?g v, [] :: unit list)"
    have idem: "\<forall>v. ?g (?g v) = ?g v" using stringCell_idem [OF fmt] by simp
    obtain exc rows1 lg1 where rows: "forRows ?f ii (data self) = (exc, rows1, lg1)"
      by (cases "forRows ?f ii (data self)") auto
    show ?thesis
    proof (cases exc)
      case (Some x)
      with Cons.prems Inr p rows have s: "self' = self\<lparr>data := rows1\<rparr>" "e = Some x" "ok' = ok"
        by simp_all
      have "priv_getAttributeInfo self' atName = priv_getAttributeInfo self atName"
        by (rule priv_getAttributeInfo_cong) (simp_all add: s)
      then have info: "priv_getAttributeInfo self' atName = Inr (dt, m)"
        using Inr p by simp
      from forRows_idem [OF idem rows] Some have "forRows ?f ii rows1 = (Some x, rows1, lg1)" by simp
      with info s show ?thesis by simp
    next
      case None
      let ?s1 = "self\<lparr>data := rows1, attributeTypeD := (attributeTypeD self)(atName \<mapsto> TString)\<rparr>"
      from Cons.prems Inr p rows None have
        rec: "applyStringTypes_columns py (Suc ii) ats ?s1 True = (e, self', ok')" by simp
      note keep = applyStringTypes_columns_keeps [OF rec]
      have d1: "colDone ?g ii (data ?s1)"
        using forRows_makes_colDone [OF idem, of "\<lambda>v. []" ii "data self" rows1 lg1] rows None by simp
      with keep have d': "colDone ?g ii (data self')" by simp
      have t': "attributeTypeD self' atName = Some TString" using keep by simp
      have "priv_getAttributeInfo self' atName = priv_getAttributeInfo self atName"
        by (rule priv_getAttributeInfo_cong) (simp_all add: keep)
      then have info: "priv_getAttributeInfo self' atName = Inr (dt, m)"
        using Inr p by simp
      have same: "self'\<lparr>data := data self', attributeTypeD := (attributeTypeD self')(atName \<mapsto> TString)\<rparr> = self'"
        using t' by (simp add: map_upd_triv)
      from Cons.IH [OF rec] info forRows_colDone [OF d'] same show ?thesis by simp
    qed
  qed
qed

text \<open>
  Claim C8.  Applying \<open>applyStringTypes\<close> to the object it left behind returns or raises
  the same and leaves the same object: the same cells and the same recorded types.
  This covers passes that end with an exception.  The float formatter is assumed never
  to print a bare marker, as is the case for CPython, whose output for a float contains
  a digit or is \<open>inf\<close>, \<open>-inf\<close> or \<open>nan\<close>.
\<close>

theorem applyStringTypes_idempotent:
  assumes "\<forall>f. float_to_str py f \<noteq> ''.'' \<and> float_to_str py f \<noteq> ''?''"
  shows "applyStringTypes py (snd (applyStringTypes py self)) = applyStringTypes py self"
proof -
  obtain e self' ok' where
    r: "applyStringTypes_columns py 0 (getAttributeList self) self False = (e, self', ok')"
    by (cases "applyStringTypes_columns py 0 (getAttributeList self) self False") auto
  note keep = applyStringTypes_columns_keeps [OF r]
  from applyStringTypes_columns_idem [OF assms r] have
    r': "applyStringTypes_columns py 0 (getAttributeList self') self' False = (e, self', ok')"
    using keep by (simp add: getAttributeList_def)
  have s: "snd (applyStringTypes py self) = self'"
    using r by (cases e) (simp_all add: applyStringTypes_def)
  show ?thesis
    unfolding s using r r' keep by (cases e) (simp_all add: applyStringTypes_def)
qed

lemma demo_float_to_str:
  "\<forall>f. float_to_str demo_builtins f \<noteq> ''.'' \<and> float_to_str demo_builtins f \<noteq> ''?''"
proof
  fix f
  have "length (int_to_str i @ ''.0'') \<noteq> 1" for i by simp
  then have "int_to_str i @ ''.0'' \<noteq> ''.'' \<and> int_to_str i @ ''.0'' \<noteq> ''?''" for i
    by (metis length_Cons list.size(3) One_nat_def)
  then show "float_to_str demo_builtins f \<noteq> ''.'' \<and> float_to_str demo_builtins f \<noteq> ''?''"
    by (cases f) (simp_all add: demo_builtins_def)
qed

lemma demo_string_run:
  "applyStringTypes demo_builtins (demo_typed False)
     = (Inr True,
        demo_raw\<lparr>data := [[PStr ''3'', PStr ''1.5'', PStr ''a''],
                          [PStr ''-1'', PStr ''?'', PStr ''n/a''],
                          [PStr ''-1'', PStr ''?'', PStr ''n/a'']],
                 attributeTypeD := [''id'' \<mapsto> TString, ''value'' \<mapsto> TString, ''label'' \<mapsto> TString]\<rparr>)"
  by (simp add: applyStringTypes_def getAttributeList_def priv_getAttributeInfo_def getName_def demo_table_def demo_api_def
  difficult_attributes_def py_in_def stringCell_def demo_builtins_def demo_typed_def demo_raw_def
  int_to_str_def nat_to_str.simps fun_upd_twist)

theorem applyStringTypes_idempotent_witness:
  "applyStringTypes demo_builtins (snd (applyStringTypes demo_builtins (demo_typed False)))
     = applyStringTypes demo_builtins (demo_typed False)"
  using applyStringTypes_idempotent [OF demo_float_to_str, of "demo_typed False"] by simp

section \<open>Properties of the comparison\<close>

text \<open>
  Claim C4.  When the row counts differ, the result is the pair of the name and
  \<open>False\<close> for each common attribute, whatever the cells, the tolerances and
  \<open>ignoreOrder\<close> are; no cell and no type is looked up.
\<close>

theorem cmpAttributeValues_row_count_mismatch:
  assumes "getRowCount self \<noteq> getRowCount dcObj"
    and "is_atNameComList self dcObj atNameComList"
  shows "cmpAttributeValues self dcObj atNameComList ignoreOrder relTol absTol
           = Inr (map (\<lambda>atName. (atName, False)) atNameComList)
         \<and> set (map (\<lambda>atName. (atName, False)) atNameComList)
           = (\<lambda>atName. (atName, False)) ` (set (getAttributeList self) \<inter> set (getAttributeList dcObj))"
  using assms by (simp add: cmpAttributeValues_def is_atNameComList_def)

theorem cmpAttributeValues_row_count_mismatch_witness:
  "cmpAttributeValues demo_raw (demo_table [''label'', ''id'', ''other''] [] True) [''label'', ''id'']
      False FNan FNan = Inr [(''label'', False), (''id'', False)]"
proof -
  have 1: "getRowCount demo_raw \<noteq> getRowCount (demo_table [''label'', ''id'', ''other''] [] True)"
    by (simp add: getRowCount_def demo_raw_def demo_table_def)
  have 2: "is_atNameComList demo_raw (demo_table [''label'', ''id'', ''other''] [] True) [''label'', ''id'']"
    by (auto simp: is_atNameComList_def getAttributeList_def demo_raw_def demo_table_def)
  from cmpAttributeValues_row_count_mismatch [OF 1 2, of False FNan FNan] show ?thesis by simp
qed

lemma cmpColumns_raised:
  "cmpColumns self dcObj ignoreOrder relTol absTol rL0 same0 coms = (Some e, rL) \<Longrightarrow>
   \<exists>bs. rL = rL0 @ bs \<and> length bs < length coms \<and> map fst bs = take (length bs) coms
      \<and> cmpColumns self dcObj ignoreOrder relTol absTol rL0 same0 (take (length bs) coms) = (None, rL)
      \<and> cmpStep self dcObj ignoreOrder relTol absTol (if bs = [] then same0 else same_after bs) (coms ! length bs)
            = Inl e"
proof (induction coms arbitrary: rL0 same0)
  case Nil
  then show ?case by simp
next
  case (Cons c cs)
  show ?case
  proof (cases "cmpStep self dcObj ignoreOrder relTol absTol same0 c")
    case (Inl e')
    with Cons.prems have "e' = e" "rL = rL0" by simp_all
    with Inl show ?thesis by (intro exI [of _ "[]"]) simp
  next
    case (Inr b)
    with Cons.prems
    have "cmpColumns self dcObj ignoreOrder relTol absTol (rL0 @ [(c, b)]) (Some b) cs = (Some e, rL)" by simp
    from Cons.IH [OF this] obtain bs where
      h: "rL = (rL0 @ [(c, b)]) @ bs" "length bs < length cs" "map fst bs = take (length bs) cs"
        "cmpColumns self dcObj ignoreOrder relTol absTol (rL0 @ [(c, b)]) (Some b) (take (length bs) cs) = (None, rL)"
        "cmpStep self dcObj ignoreOrder relTol absTol (if bs = [] then Some b else same_after bs) (cs ! length bs) = Inl e"
      by blast
    have s: "(if bs = [] then Some b else same_after bs) = same_after ((c, b) # bs)"
      by (simp add: same_after_def)
    from h Inr s show ?thesis by (intro exI [of _ "(c, b) # bs"]) simp
  qed
qed

lemmas cmp_eval = cmpAttributeValues_def cmpStep_def cmpColumn_def priv_getAttributeInfo_def
  getAttributeValueList_def getRowCount_def getName_def demo_table_def demo_api_def
  difficult_attributes_def py_list_eq_def isClose_def py_in_def

text \<open>
  Claim C5.  The claim asks that a float column with empty value lists is reported
  equal, independently of the columns compared before it.  The program does not assign
  \<open>same\<close> in that case.  On two tables without rows: a float column alone raises
  \<open>UnboundLocalError\<close>, or yields the empty list when exceptions are swallowed; after a
  string column it inherits that column's flag; before it, it raises again.
\<close>

theorem cmpAttributeValues_empty_float_column:
  "cmpAttributeValues (demo_table [''value''] [] True) (demo_table [''value''] [] True)
      [''value''] True (FFin (1 / 100000)) (FFin (1 / 10000)) = Inl UnboundLocalError
   \<and> cmpAttributeValues (demo_table [''value''] [] False) (demo_table [''value''] [] True)
      [''value''] True (FFin (1 / 100000)) (FFin (1 / 10000)) = Inr []
   \<and> cmpAttributeValues (demo_table [''label'', ''value''] [] True)
        (demo_table [''label'', ''value''] [] True)
      [''label'', ''value''] True (FFin (1 / 100000)) (FFin (1 / 10000)) = Inr [(''label'', True), (''value'', True)]
   \<and> cmpAttributeValues (demo_table [''label'', ''value''] [] True)
        (demo_table [''label'', ''value''] [] True)
      [''value'', ''label''] True (FFin (1 / 100000)) (FFin (1 / 10000)) = Inl UnboundLocalError"
proof -
  have 1: "cmpAttributeValues (demo_table [''value''] [] True) (demo_table [''value''] [] True)
      [''value''] True (FFin (1 / 100000)) (FFin (1 / 10000)) = Inl UnboundLocalError"
    by (simp add: cmp_eval)
  have 2: "cmpAttributeValues (demo_table [''value''] [] False) (demo_table [''value''] [] True)
      [''value''] True (FFin (1 / 100000)) (FFin (1 / 10000)) = Inr []"
    by (simp add: cmp_eval)
  have 3: "cmpAttributeValues (demo_table [''label'', ''value''] [] True)
        (demo_table [''label'', ''value''] [] True)
      [''label'', ''value''] True (FFin (1 / 100000)) (FFin (1 / 10000)) = Inr [(''label'', True), (''value'', True)]"
    by (simp add: cmp_eval)
  have 4: "cmpAttributeValues (demo_table [''label'', ''value''] [] True)
        (demo_table [''label'', ''value''] [] True)
      [''value'', ''label''] True (FFin (1 / 100000)) (FFin (1 / 10000)) = Inl UnboundLocalError"
    by (simp add: cmp_eval)
  from 1 2 3 4 show ?thesis by blast
qed

text \<open>
  Claim C10.  When the table swallows exceptions, the row counts agree and the loop
  over the common attributes is ended by an exception, the method returns the list
  built so far: the entries of the attributes before the failing one, which are the
  entries a comparison of these attributes alone gives, and no entry for the failing
  attribute or for a later one.
\<close>

theorem cmpAttributeValues_partial_result:
  assumes "\<not> raiseExceptions self"
    and "getRowCount self = getRowCount dcObj"
    and "distinct atNameComList"
    and "cmpColumns self dcObj ignoreOrder relTol absTol [] None atNameComList = (Some e, rL)"
  shows "cmpAttributeValues self dcObj atNameComList ignoreOrder relTol absTol = Inr rL
     \<and> (\<exists>pre atName post. atNameComList = pre @ atName # post \<and> map fst rL = pre
          \<and> cmpColumns self dcObj ignoreOrder relTol absTol [] None pre = (None, rL)
          \<and> cmpStep self dcObj ignoreOrder relTol absTol (same_after rL) atName = Inl e
          \<and> atName \<notin> fst ` set rL \<and> set post \<inter> fst ` set rL = {})"
proof -
  from cmpColumns_raised [OF assms(4)] obtain bs where
    h: "rL = [] @ bs" "length bs < length atNameComList"
      "map fst bs = take (length bs) atNameComList"
      "cmpColumns self dcObj ignoreOrder relTol absTol [] None (take (length bs) atNameComList)
         = (None, rL)"
      "cmpStep self dcObj ignoreOrder relTol absTol (if bs = [] then None else same_after bs)
         (atNameComList ! length bs) = Inl e"
    by blast
  define pre where "pre = take (length rL) atNameComList"
  define atName where "atName = atNameComList ! length rL"
  define post where "post = drop (Suc (length rL)) atNameComList"
  have bs: "bs = rL" using h(1) by simp
  have split: "atNameComList = pre @ atName # post"
    unfolding pre_def atName_def post_def using h(2) bs by (simp add: id_take_nth_drop [symmetric])
  have names: "map fst rL = pre" using h(3) bs by (simp add: pre_def)
  then have f: "fst ` set rL = set pre" by (metis set_map)
  have s: "(if bs = [] then None else same_after bs) = same_after rL"
    using bs by (simp add: same_after_def)
  have r: "cmpAttributeValues self dcObj atNameComList ignoreOrder relTol absTol = Inr rL"
    using assms(1,2,4) by (simp add: cmpAttributeValues_def)
  have d: "atName \<notin> set pre \<and> set post \<inter> set pre = {}"
    using assms(3) split by auto
  have pre_ok: "cmpColumns self dcObj ignoreOrder relTol absTol [] None pre = (None, rL)"
    using h(4) bs by (simp add: pre_def)
  have fails: "cmpStep self dcObj ignoreOrder relTol absTol (same_after rL) atName = Inl e"
    using h(5) s bs by (simp add: atName_def)
  have "atNameComList = pre @ atName # post \<and> map fst rL = pre
          \<and> cmpColumns self dcObj ignoreOrder relTol absTol [] None pre = (None, rL)
          \<and> cmpStep self dcObj ignoreOrder relTol absTol (same_after rL) atName = Inl e
          \<and> atName \<notin> fst ` set rL \<and> set post \<inter> fst ` set rL = {}"
    using split names pre_ok fails d f by simp
  then have "\<exists>pre atName post. atNameComList = pre @ atName # post \<and> map fst rL = pre
          \<and> cmpColumns self dcObj ignoreOrder relTol absTol [] None pre = (None, rL)
          \<and> cmpStep self dcObj ignoreOrder relTol absTol (same_after rL) atName = Inl e
          \<and> atName \<notin> fst ` set rL \<and> set post \<inter> fst ` set rL = {}"
    by (intro exI)
  with r show ?thesis by simp
qed

theorem cmpAttributeValues_partial_result_witness:
  "cmpAttributeValues
     (demo_table [''label'', ''value''] [[PStr ''a'', PFloat (FFin (3 / 2))]] False)
     (demo_table [''label'', ''value''] [[PStr ''a'', PStr ''?'']] True)
     [''label'', ''value''] True (FFin (1 / 100000)) (FFin (1 / 10000))
   = Inr [(''label'', True)]"
proof -
  let ?a = "demo_table [''label'', ''value''] [[PStr ''a'', PFloat (FFin (3 / 2))]] False"
  let ?b = "demo_table [''label'', ''value''] [[PStr ''a'', PStr ''?'']] True"
  have 1: "\<not> raiseExceptions ?a" by (simp add: demo_table_def)
  have 2: "getRowCount ?a = getRowCount ?b" by (simp add: demo_table_def getRowCount_def)
  have 3: "distinct [''label'', ''value'']" by simp
  have 4: "cmpColumns ?a ?b True (FFin (1 / 100000)) (FFin (1 / 10000)) [] None [''label'', ''value'']
             = (Some ValueError, [(''label'', True)])"
    by (simp add: cmp_eval)
  from cmpAttributeValues_partial_result [OF 1 2 3 4] show ?thesis by simp
qed

end
